theory Spec2Isabelle
  imports Complex_Main
begin

section \<open>The caloric-needs engine of calculate.py\<close>

text \<open>
  The engine consists of \<^verbatim>\<open>calculate_weight_trend\<close> (the trend estimator) and
  \<^verbatim>\<open>calculate_caloric_needs\<close>. Python floats are modelled as real numbers, so the
  rounding error of floating-point arithmetic is outside the model; the two places where
  the Python runtime leaves the reals are kept as explicit values: a \<^verbatim>\<open>nan\<close>
  produced by numpy and a complex number produced by \<^verbatim>\<open>**\<close>.
\<close>

subsection \<open>Values of the Python runtime\<close>

text \<open>Both functions raise only built-in exceptions; the message is kept.\<close>

datatype error = ValueError string | TypeError string

text \<open>
  A numpy float: numpy does not raise on a division by zero, it yields \<^verbatim>\<open>inf\<close> or
  \<^verbatim>\<open>nan\<close> (with a RuntimeWarning). Only \<^verbatim>\<open>nan\<close> can leave the trend estimator.
\<close>

datatype npfloat = Num real | NaN

text \<open>
  Python 3's \<^verbatim>\<open>round(x)\<close> with one argument: the nearest integer, a tie going to the
  even neighbour.
\<close>

definition py_round :: "real \<Rightarrow> int" where
  "py_round x =
     (let f = \<lfloor>x\<rfloor>; d = x - of_int f
      in if d < 1 / 2 then f
         else if 1 / 2 < d then f + 1
         else if even f then f else f + 1)"

text \<open>
  \<^verbatim>\<open>x ** y\<close> for a float \<open>x\<close> and a positive float \<open>y\<close> that is not a whole number,
  as the exponent 0.55 of the BMR formula: Python 3 gives a complex number for a negative
  base (\<open>None\<close> here) and 0.0 for the base 0.
\<close>

definition float_pow :: "real \<Rightarrow> real \<Rightarrow> real option" where
  "float_pow x y = (if x < 0 then None else Some (x powr y))"

text \<open>\<^verbatim>\<open>str.lower\<close>, on the ASCII letters.\<close>

definition lower_char :: "char \<Rightarrow> char" where
  "lower_char c =
     (case map_of (zip ''ABCDEFGHIJKLMNOPQRSTUVWXYZ'' ''abcdefghijklmnopqrstuvwxyz'') c of
        Some l \<Rightarrow> l
      | None \<Rightarrow> c)"

definition lower :: "string \<Rightarrow> string" where
  "lower s = map lower_char s"

text \<open>The format specification \<^verbatim>\<open>:.2f\<close>: sign, integer part, two decimals.\<close>

definition digit_char :: "nat \<Rightarrow> char" where
  "digit_char d = ''0123456789'' ! d"

fun str_nat :: "nat \<Rightarrow> string" where
  "str_nat n = (if n < 10 then [digit_char n] else str_nat (n div 10) @ [digit_char (n mod 10)])"

declare str_nat.simps [simp del]

definition format_2f :: "real \<Rightarrow> string" where
  "format_2f x =
     (let n = nat (py_round (\<bar>x\<bar> * 100))
      in (if x < 0 then ''-'' else '''') @ str_nat (n div 100) @ ''.''
           @ [digit_char (n mod 100 div 10), digit_char (n mod 10)])"

subsection \<open>The trend estimator\<close>

text \<open>\<^verbatim>\<open>np.arange(days)\<close>\<close>

definition np_arange :: "nat \<Rightarrow> real list" where
  "np_arange days = map real [0..<days]"

text \<open>
  The array \<^verbatim>\<open>decay_weights\<close> after the in-place normalisation
  \<^verbatim>\<open>decay_weights /= decay_weights.sum()\<close>.
\<close>

definition decay_weights :: "nat \<Rightarrow> real \<Rightarrow> real list" where
  "decay_weights days half_life =
     (let d = map (\<lambda>i. exp (- i / half_life)) (np_arange days)
      in map (\<lambda>x. x / sum_list d) d)"

text \<open>
  \<^verbatim>\<open>calculate_weight_trend(weights, half_life=7)\<close>. The function has no check of its
  arguments and no \<^verbatim>\<open>raise\<close>. With \<^verbatim>\<open>half_life = 0\<close> and a non-empty series the
  exponent of position 0 is \<^verbatim>\<open>-0/0 = nan\<close>, which spreads through the sums to the result;
  on an empty series every array is empty and \<^verbatim>\<open>np.sum\<close> gives 0.
\<close>

definition calculate_weight_trend :: "real list \<Rightarrow> real \<Rightarrow> npfloat" where
  "calculate_weight_trend weights half_life =
     (let days = length weights
      in if half_life = 0 \<and> days \<noteq> 0 then NaN
         else Num (sum_list (map2 (*) weights (decay_weights days half_life))))"

subsection \<open>The caloric-needs calculator\<close>

record result =
  BMR :: int
  Maintenance :: int
  Gain :: int
  Lose :: int
  Recommendation :: string
  Warning :: string

definition pal_dict :: "string \<rightharpoonup> real" where
  "pal_dict =
     [''sedentary'' \<mapsto> 1.2,
      ''lightly active'' \<mapsto> 1.375,
      ''moderately active'' \<mapsto> 1.55,
      ''very active'' \<mapsto> 1.725,
      ''extremely active'' \<mapsto> 1.9]"

definition maintaining_message :: string where
  "maintaining_message =
     ''You are maintaining weight. Continue at your current calorie level'' @ [CHR 0x0A]
       @ ''if you want to stay around this weight.''"

definition losing_message :: "real \<Rightarrow> string" where
  "losing_message avg_weight_change =
     ''You are losing weight at '' @ format_2f avg_weight_change @ '' lbs/week.''
       @ ''Consider increasing calories if you don'' @ [CHR 0x27]
       @ ''t want to lose weight this quickly.''"

definition gaining_message :: "real \<Rightarrow> string" where
  "gaining_message avg_weight_change =
     ''You are gaining weight at '' @ format_2f avg_weight_change @ '' lbs/week.''
       @ ''Consider reducing calories if you don'' @ [CHR 0x27]
       @ ''t want to gain weight this quickly.''"

definition losing_warning :: string where
  "losing_warning =
     ''Warning: You are losing weight too rapidly. Consider increasing calories.''"

definition gaining_warning :: string where
  "gaining_warning =
     ''Warning: You are gaining weight too rapidly. Consider reducing calories.''"

text \<open>What \<^verbatim>\<open>round\<close> raises on a complex number and on \<^verbatim>\<open>nan\<close>.\<close>

definition round_complex_error :: error where
  "round_complex_error =
     TypeError (''type complex doesn'' @ [CHR 0x27] @ ''t define __round__ method'')"

definition round_nan_error :: error where
  "round_nan_error = ValueError ''cannot convert float NaN to integer''"

text \<open>
  \<^verbatim>\<open>calculate_caloric_needs(conn, user_id)\<close>. The three arguments are what the three
  queries of the function fetch: the rows \<open>(weight, date)\<close> and \<open>(calories, date)\<close> of
  the user, most recent first, and the row \<open>(sex, age, height, activity_level)\<close> of the
  user, \<open>None\<close> when there is none. The columns \<open>age\<close> and \<open>height\<close> are INTEGER and
  \<open>weight\<close> is REAL; \<open>calories\<close> is taken as a number, since the function rounds it.

  The checks and the computation come in the order of the source. A negative most recent
  weight makes \<^verbatim>\<open>bmr\<close> complex; nothing fails until \<^verbatim>\<open>round(maintenance_bmr)\<close> in the
  returned dictionary, which raises TypeError. A \<^verbatim>\<open>nan\<close> trend fails every comparison
  and reaches \<^verbatim>\<open>round(maintenance_calories)\<close>, which raises ValueError.
\<close>

definition calculate_caloric_needs ::
  "(real \<times> string) list \<Rightarrow> (real \<times> string) list \<Rightarrow> (string \<times> int \<times> int \<times> string) option
     \<Rightarrow> error + result" where
  "calculate_caloric_needs weights_data calories_data user_data =
     (if length weights_data \<noteq> length calories_data
      then Inl (ValueError ''Weights and calories lists must have the same length.'')
      else
        let weights = map fst weights_data;
            calories = map fst calories_data
        in
        if weights = [] \<or> calories = []
        then Inl (ValueError ''No data found for the user.'')
        else
          (case user_data of
             None \<Rightarrow> Inl (ValueError ''User data not found.'')
           | Some (sex, age, height, activity_level) \<Rightarrow>
              (let bmr =
                     map_option
                       (\<lambda>p. 129.6 * p
                             + 0.011 * (real_of_int height * 2.54) ^ 2
                             - (if age \<le> 60 then 1.96 * real_of_int age
                                else 4.9 * real_of_int (age - 60))
                             - 213.8 * (if lower sex = ''male'' then 0 else 1))
                       (float_pow (hd weights * 0.453592) 0.55)
               in
               (case pal_dict activity_level of
                  None \<Rightarrow> Inl (ValueError ''Invalid activity level.'')
                | Some pal \<Rightarrow>
                   (let maintenance_bmr = map_option (\<lambda>b. b * pal) bmr;
                        delta = 0.1
                    in
                    (case calculate_weight_trend weights 7 of
                       NaN \<Rightarrow>
                        (case maintenance_bmr of
                           None \<Rightarrow> Inl round_complex_error
                         | Some mb \<Rightarrow> Inl round_nan_error)
                     | Num weight_trend \<Rightarrow>
                        (let avg_weight_change =
                               (weight_trend - hd weights) / (real (length weights) / 7);
                             avg_calories = sum_list calories / real (length calories);
                             energy_balance = avg_weight_change * 3500;
                             maintenance_calories = avg_calories - energy_balance;
                             gain_calories = maintenance_calories + (0.5 * 3500) / 7;
                             lose_calories = maintenance_calories - (1.0 * 3500) / 7;
                             (recommendation, maintenance_calories, gain_calories,
                              lose_calories) =
                               (if - delta \<le> avg_weight_change \<and> avg_weight_change \<le> delta
                                then
                                  (let maintenance_calories =
                                         real_of_int (py_round (hd calories))
                                   in (maintaining_message, maintenance_calories,
                                       maintenance_calories + (0.5 * 3500) / 7,
                                       maintenance_calories - (1.0 * 3500) / 7))
                                else if avg_weight_change < - delta
                                then (losing_message avg_weight_change,
                                      maintenance_calories, gain_calories, lose_calories)
                                else if avg_weight_change > delta
                                then (gaining_message avg_weight_change,
                                      maintenance_calories, gain_calories, lose_calories)
                                else ('''', maintenance_calories, gain_calories,
                                      lose_calories));
                             rapid_change_warning =
                               (if avg_weight_change < - 1.5 then losing_warning
                                else if avg_weight_change > 0.75 then gaining_warning
                                else '''')
                         in
                         (case maintenance_bmr of
                            None \<Rightarrow> Inl round_complex_error
                          | Some mb \<Rightarrow>
                             Inr \<lparr>BMR = py_round mb,
                                  Maintenance = py_round maintenance_calories,
                                  Gain = py_round gain_calories,
                                  Lose = py_round lose_calories,
                                  Recommendation = recommendation,
                                  Warning = rapid_change_warning\<rparr>))))))))"

section \<open>The quantities of the specification\<close>

text \<open>
  The definitions of this section follow the words of the specification, not the code;
  the theorems below compare them with what the code computes.
\<close>

text \<open>
  The decay weight of position \<open>i\<close> (0 is the most recent sample) in a series of
  \<open>n\<close> samples: \<open>exp(-i / halfLife)\<close>, normalised by the sum over all positions.
\<close>

definition spec_decay :: "nat \<Rightarrow> real \<Rightarrow> nat \<Rightarrow> real" where
  "spec_decay n h i = exp (- real i / h) / (\<Sum>j<n. exp (- real j / h))"

text \<open>The weighted sum of the weight values.\<close>

definition spec_trend :: "real list \<Rightarrow> real \<Rightarrow> real" where
  "spec_trend w h = (\<Sum>i<length w. w ! i * spec_decay (length w) h i)"

text \<open>\<open>avgWeightChangePerWeek = (trend - weights[0]) / (len(weights)/7)\<close>, half-life 7.\<close>

definition spec_avg_weight_change :: "real list \<Rightarrow> real" where
  "spec_avg_weight_change w = (spec_trend w 7 - w ! 0) / (real (length w) / 7)"

text \<open>\<open>maintenanceCalories = average(calories) - avgWeightChangePerWeek * 3500\<close>\<close>

definition spec_maintenance :: "real list \<Rightarrow> real list \<Rightarrow> real" where
  "spec_maintenance w c = sum_list c / real (length c) - spec_avg_weight_change w * 3500"

text \<open>
  The BMR formula, from the current weight in pounds, the height in inches, the age and
  the sex (\<open>True\<close> for female).
\<close>

definition spec_bmr :: "real \<Rightarrow> real \<Rightarrow> real \<Rightarrow> bool \<Rightarrow> real" where
  "spec_bmr currentWeight height_inches age female =
     129.6 * (currentWeight * 0.453592) powr 0.55 + 0.011 * (height_inches * 2.54) ^ 2
       - (if age \<le> 60 then 1.96 * age else 4.9 * (age - 60))
       - (if female then 213.8 else 0)"

text \<open>
  The table of activity factors. The levels are written as the users table stores them
  and as the code looks them up, with a space where the specification's names have an
  underscore.
\<close>

definition spec_activity_factors :: "(string \<times> real) list" where
  "spec_activity_factors =
     [(''sedentary'', 1.2), (''lightly active'', 1.375), (''moderately active'', 1.55),
      (''very active'', 1.725), (''extremely active'', 1.9)]"


section \<open>Rounding\<close>

lemma py_round_of_int: "py_round (of_int n) = n"
  by (simp add: py_round_def)


lemma py_round_near: "\<bar>real_of_int (py_round x) - x\<bar> \<le> 1 / 2"
  unfolding py_round_def Let_def by (simp add: abs_le_iff)

section \<open>The decay weights\<close>

lemma sum_list_pos_real:
  fixes xs :: "real list"
  shows "xs \<noteq> [] \<Longrightarrow> \<forall>x\<in>set xs. 0 < x \<Longrightarrow> 0 < sum_list xs"
  by (induction xs) (auto simp: add_pos_nonneg sum_list_nonneg less_imp_le)

lemma sum_list_div_const:
  fixes xs :: "real list"
  shows "sum_list (map (\<lambda>x. x / c) xs) = sum_list xs / c"
  by (induction xs) (simp_all add: add_divide_distrib)

lemma length_decay_weights: "length (decay_weights n h) = n"
  by (simp add: decay_weights_def np_arange_def)

lemma exps_sum:
  "sum_list (map (\<lambda>i. exp (- i / h)) (np_arange n)) = (\<Sum>j<n. exp (- real j / h))"
  by (simp add: np_arange_def sum_list_sum_nth atLeast0LessThan)

lemma nth_decay_weights: "i < n \<Longrightarrow> decay_weights n h ! i = spec_decay n h i"
  using exps_sum[of h n] by (simp add: decay_weights_def Let_def np_arange_def spec_decay_def)


lemma sum_list_decay_weights: "0 < n \<Longrightarrow> sum_list (decay_weights n h) = 1"
proof -
  assume "0 < n"
  let ?d = "map (\<lambda>i. exp (- i / h)) (np_arange n)"
  have "?d \<noteq> []" using \<open>0 < n\<close> by (simp add: np_arange_def)
  moreover have "\<forall>x\<in>set ?d. 0 < x" by auto
  ultimately have pos: "0 < sum_list ?d" by (rule sum_list_pos_real)
  have "sum_list (decay_weights n h) = sum_list ?d / sum_list ?d"
    unfolding decay_weights_def Let_def by (rule sum_list_div_const)
  with pos show ?thesis by simp
qed

lemma weighted_sum_spec_trend:
  "sum_list (map2 (*) w (decay_weights (length w) h)) = spec_trend w h"
  by (simp add: sum_list_sum_nth atLeast0LessThan length_decay_weights nth_decay_weights
      spec_trend_def)

lemma calculate_weight_trend_Num:
  "w \<noteq> [] \<Longrightarrow> h \<noteq> 0 \<Longrightarrow> calculate_weight_trend w h = Num (spec_trend w h)"
  by (simp add: calculate_weight_trend_def weighted_sum_spec_trend)



lemma spec_trend_single: "spec_trend [x] h = x"
  by (simp add: spec_trend_def spec_decay_def)

section \<open>Bounds on the weekly rate of change\<close>

lemma exp_seventh_bounds: "6 / 7 \<le> exp (- 1 / 7 :: real)" "exp (- 1 / 7 :: real) \<le> 1"
  using exp_ge_add_one_self[of "- 1 / 7 :: real"] by simp_all

lemma spec_decay_nonneg: "0 \<le> spec_decay n h i"
  unfolding spec_decay_def by (intro divide_nonneg_nonneg sum_nonneg) simp_all

lemma sum_spec_decay: "0 < n \<Longrightarrow> (\<Sum>i<n. spec_decay n h i) = 1"
  using sum_list_decay_weights[of n h]
  by (simp add: sum_list_sum_nth atLeast0LessThan length_decay_weights nth_decay_weights)

lemma spec_trend_shift:
  assumes "w \<noteq> []"
  shows "spec_trend w h - c = (\<Sum>i<length w. (w ! i - c) * spec_decay (length w) h i)"
proof -
  have "(\<Sum>i<length w. (w ! i - c) * spec_decay (length w) h i)
      = spec_trend w h - c * (\<Sum>i<length w. spec_decay (length w) h i)"
    by (simp add: spec_trend_def left_diff_distrib sum_subtractf sum_distrib_left)
  with assms show ?thesis by (simp add: sum_spec_decay)
qed

lemma spec_decay_second:
  assumes "1 < n"
  shows "6 / (7 * real n) \<le> spec_decay n 7 1"
proof -
  have "(\<Sum>j<n. exp (- real j / 7)) \<le> real (card {..<n}) * 1"
    by (rule sum_bounded_above) simp
  then have le: "(\<Sum>j<n. exp (- real j / 7)) \<le> real n" by simp
  have "exp (- real 0 / 7) \<le> (\<Sum>j<n. exp (- real j / 7))"
    using assms by (intro member_le_sum) simp_all
  then have pos: "0 < (\<Sum>j<n. exp (- real j / 7))" by simp
  have "6 / 7 / real n \<le> exp (- 1 / 7) / (\<Sum>j<n. exp (- real j / 7))"
    using exp_seventh_bounds(1) le pos by (intro frac_le) simp_all
  then show ?thesis by (simp add: spec_decay_def)
qed

lemma weekly_rate_scale:
  fixes a n :: real
  assumes "n \<noteq> 0"
  shows "a * (6 / (7 * n)) / (n / 7) = a * 6 / n\<^sup>2"
  using assms by (simp add: power2_eq_square)

lemma spec_avg_weight_change_rising:
  assumes n: "1 < length w" and least: "\<forall>x\<in>set w. w ! 0 \<le> x"
  shows "(w ! 1 - w ! 0) * 6 / (real (length w))\<^sup>2 \<le> spec_avg_weight_change w"
proof -
  let ?n = "length w"
  let ?f = "\<lambda>i. (w ! i - w ! 0) * spec_decay ?n 7 i"
  have ne: "w \<noteq> []" using n by auto
  have nonneg: "0 \<le> ?f i" if "i < ?n" for i
    using that least by (simp add: spec_decay_nonneg)
  have "?f 1 \<le> (\<Sum>i<?n. ?f i)"
    using n by (intro member_le_sum) (simp_all add: nonneg)
  moreover have "0 \<le> w ! 1 - w ! 0" using n least by simp
  then have "(w ! 1 - w ! 0) * (6 / (7 * real ?n)) \<le> ?f 1"
    using spec_decay_second[OF n] by (rule mult_left_mono[rotated])
  ultimately have "(w ! 1 - w ! 0) * (6 / (7 * real ?n)) \<le> spec_trend w 7 - w ! 0"
    using spec_trend_shift[OF ne, of 7 "w ! 0"] by simp
  then have "(w ! 1 - w ! 0) * (6 / (7 * real ?n)) / (real ?n / 7)
      \<le> (spec_trend w 7 - w ! 0) / (real ?n / 7)"
    using n by (intro divide_right_mono) simp_all
  moreover have "(w ! 1 - w ! 0) * (6 / (7 * real ?n)) / (real ?n / 7)
      = (w ! 1 - w ! 0) * 6 / (real ?n)\<^sup>2"
    using ne by (intro weekly_rate_scale) simp
  ultimately show ?thesis by (simp add: spec_avg_weight_change_def)
qed

lemma spec_avg_weight_change_falling:
  assumes n: "1 < length w" and greatest: "\<forall>x\<in>set w. x \<le> w ! 0"
  shows "spec_avg_weight_change w \<le> (w ! 1 - w ! 0) * 6 / (real (length w))\<^sup>2"
proof -
  let ?n = "length w"
  let ?f = "\<lambda>i. (w ! 0 - w ! i) * spec_decay ?n 7 i"
  have ne: "w \<noteq> []" using n by auto
  have nonneg: "0 \<le> ?f i" if "i < ?n" for i
    using that greatest by (simp add: spec_decay_nonneg)
  have "?f 1 \<le> (\<Sum>i<?n. ?f i)"
    using n by (intro member_le_sum) (simp_all add: nonneg)
  moreover have "0 \<le> w ! 0 - w ! 1" using n greatest by simp
  then have "(w ! 0 - w ! 1) * (6 / (7 * real ?n)) \<le> ?f 1"
    using spec_decay_second[OF n] by (rule mult_left_mono[rotated])
  moreover have "(\<Sum>i<?n. ?f i) = - (spec_trend w 7 - w ! 0)"
  proof -
    have "(\<Sum>i<?n. ?f i) = (\<Sum>i<?n. - ((w ! i - w ! 0) * spec_decay ?n 7 i))"
      by (intro sum.cong) (simp_all add: algebra_simps)
    also have "\<dots> = - (\<Sum>i<?n. (w ! i - w ! 0) * spec_decay ?n 7 i)"
      by (rule sum_negf)
    finally show ?thesis using spec_trend_shift[OF ne, of 7 "w ! 0"] by simp
  qed
  ultimately have "(w ! 0 - w ! 1) * (6 / (7 * real ?n)) \<le> - (spec_trend w 7 - w ! 0)"
    by simp
  then have "(w ! 0 - w ! 1) * (6 / (7 * real ?n)) / (real ?n / 7)
      \<le> - (spec_trend w 7 - w ! 0) / (real ?n / 7)"
    using n by (intro divide_right_mono) simp_all
  moreover have "(w ! 0 - w ! 1) * (6 / (7 * real ?n)) / (real ?n / 7)
      = - ((w ! 1 - w ! 0) * 6 / (real ?n)\<^sup>2)"
  proof -
    have "(w ! 0 - w ! 1) * (6 / (7 * real ?n)) / (real ?n / 7)
        = (w ! 0 - w ! 1) * 6 / (real ?n)\<^sup>2"
      using ne by (intro weekly_rate_scale) simp
    also have "\<dots> = - ((w ! 1 - w ! 0) * 6 / (real ?n)\<^sup>2)"
      by (simp add: left_diff_distrib diff_divide_distrib)
    finally show ?thesis .
  qed
  ultimately have "- ((w ! 1 - w ! 0) * 6 / (real ?n)\<^sup>2)
      \<le> - ((spec_trend w 7 - w ! 0) / (real ?n / 7))"
    by (simp only: minus_divide_left)
  then show ?thesis
    unfolding spec_avg_weight_change_def by (simp only: neg_le_iff_le)
qed

lemma spec_avg_weight_change_gain: "150 \<le> spec_avg_weight_change [100, 200]"
  using spec_avg_weight_change_rising[of "[100, 200]"] by simp

lemma spec_avg_weight_change_loss: "spec_avg_weight_change [200, 100] \<le> - 150"
  using spec_avg_weight_change_falling[of "[200, 100]"] by simp

lemma spec_avg_weight_change_single: "spec_avg_weight_change [x] = 0"
  by (simp add: spec_avg_weight_change_def spec_trend_single)

lemma spec_avg_weight_change_week:
  "6 / 49 \<le> spec_avg_weight_change [180, 181, 182, 183, 184, 185, 186]"
  using spec_avg_weight_change_rising[of "[180, 181, 182, 183, 184, 185, 186]"] by simp

section \<open>The paths through the calculator\<close>


lemma pal_dict_table: "pal_dict lvl = Some pal \<longleftrightarrow> (lvl, pal) \<in> set spec_activity_factors"
  by (auto simp: pal_dict_def spec_activity_factors_def split: if_splits)

lemma needs_length_mismatch:
  "length wd \<noteq> length cd \<Longrightarrow>
   calculate_caloric_needs wd cd ud =
     Inl (ValueError ''Weights and calories lists must have the same length.'')"
  by (simp add: calculate_caloric_needs_def)

lemma needs_no_data:
  "length wd = length cd \<Longrightarrow> wd = [] \<Longrightarrow>
   calculate_caloric_needs wd cd ud = Inl (ValueError ''No data found for the user.'')"
  by (simp add: calculate_caloric_needs_def)

lemma needs_no_user:
  "length wd = length cd \<Longrightarrow> wd \<noteq> [] \<Longrightarrow>
   calculate_caloric_needs wd cd None = Inl (ValueError ''User data not found.'')"
  by (auto simp add: calculate_caloric_needs_def Let_def)

lemma needs_invalid_level:
  "length wd = length cd \<Longrightarrow> wd \<noteq> [] \<Longrightarrow> pal_dict lvl = None \<Longrightarrow>
   calculate_caloric_needs wd cd (Some (sex, age, height, lvl)) =
     Inl (ValueError ''Invalid activity level.'')"
  by (auto simp add: calculate_caloric_needs_def Let_def)

lemma needs_negative_weight:
  assumes len: "length wd = length cd" and ne: "wd \<noteq> []"
    and pal: "pal_dict lvl = Some pal" and neg: "fst (hd wd) < 0"
  shows "calculate_caloric_needs wd cd (Some (sex, age, height, lvl)) = Inl round_complex_error"
proof -
  have cne: "cd \<noteq> []" using len ne by auto
  have nil: "(map fst wd = [] \<or> map fst cd = []) = False" using ne cne by simp
  have hdw: "hd (map fst wd) = fst (hd wd)" using ne by (simp add: hd_map)
  have tr: "calculate_weight_trend (map fst wd) 7 = Num (spec_trend (map fst wd) 7)"
    using ne by (simp add: calculate_weight_trend_Num)
  have pw: "float_pow (fst (hd wd) * 0.453592) 0.55 = None"
    using neg by (simp add: float_pow_def mult_less_0_iff)
  show ?thesis
    unfolding calculate_caloric_needs_def Let_def
    by (simp only: len refl not_True_eq_False if_False nil pal tr hdw pw
          option.case prod.case npfloat.case option.map split: prod.split)
      simp
qed

lemma needs_valid:
  assumes len: "length wd = length cd" and ne: "wd \<noteq> []"
    and pal: "pal_dict lvl = Some pal" and w0: "0 \<le> fst (hd wd)"
  shows "calculate_caloric_needs wd cd (Some (sex, age, height, lvl)) =
     Inr \<lparr>BMR = py_round (spec_bmr (fst (hd wd)) (real_of_int height) (real_of_int age)
                            (lower sex \<noteq> ''male'') * pal),
          Maintenance =
            (if - 0.1 \<le> spec_avg_weight_change (map fst wd)
                \<and> spec_avg_weight_change (map fst wd) \<le> 0.1
             then py_round (fst (hd cd))
             else py_round (spec_maintenance (map fst wd) (map fst cd))),
          Gain =
            (if - 0.1 \<le> spec_avg_weight_change (map fst wd)
                \<and> spec_avg_weight_change (map fst wd) \<le> 0.1
             then py_round (real_of_int (py_round (fst (hd cd))) + 250)
             else py_round (spec_maintenance (map fst wd) (map fst cd) + 250)),
          Lose =
            (if - 0.1 \<le> spec_avg_weight_change (map fst wd)
                \<and> spec_avg_weight_change (map fst wd) \<le> 0.1
             then py_round (real_of_int (py_round (fst (hd cd))) - 500)
             else py_round (spec_maintenance (map fst wd) (map fst cd) - 500)),
          Recommendation =
            (if - 0.1 \<le> spec_avg_weight_change (map fst wd)
                \<and> spec_avg_weight_change (map fst wd) \<le> 0.1
             then maintaining_message
             else if spec_avg_weight_change (map fst wd) < - 0.1
             then losing_message (spec_avg_weight_change (map fst wd))
             else gaining_message (spec_avg_weight_change (map fst wd))),
          Warning =
            (if spec_avg_weight_change (map fst wd) < - 1.5 then losing_warning
             else if spec_avg_weight_change (map fst wd) > 0.75 then gaining_warning
             else [])\<rparr>"
proof -
  let ?a = "spec_avg_weight_change (map fst wd)"
  let ?m = "spec_maintenance (map fst wd) (map fst cd)"
  let ?c = "real_of_int (py_round (fst (hd cd)))"
  have cne: "cd \<noteq> []" using len ne by auto
  have nil: "(map fst wd = [] \<or> map fst cd = []) = False" using ne cne by simp
  have hdw: "hd (map fst wd) = fst (hd wd)" using ne by (simp add: hd_map)
  have hdc: "hd (map fst cd) = fst (hd cd)" using cne by (simp add: hd_map)
  have tr: "calculate_weight_trend (map fst wd) 7 = Num (spec_trend (map fst wd) 7)"
    using ne by (simp add: calculate_weight_trend_Num)
  have avg: "(spec_trend (map fst wd) 7 - fst (hd wd)) / (real (length (map fst wd)) / 7) = ?a"
    using ne by (simp add: spec_avg_weight_change_def hd_conv_nth)
  have pw: "float_pow (fst (hd wd) * 0.453592) 0.55 = Some ((fst (hd wd) * 0.453592) powr 0.55)"
    using w0 by (simp add: float_pow_def not_less mult_nonneg_nonneg)
  have mt: "sum_list (map fst cd) / real (length (map fst cd)) - ?a * 3500 = ?m"
    by (simp add: spec_maintenance_def)
  have unfolded: "calculate_caloric_needs wd cd (Some (sex, age, height, lvl)) =
    (case (if - 0.1 \<le> ?a \<and> ?a \<le> 0.1
           then (maintaining_message, ?c, ?c + (0.5 * 3500) / 7, ?c - (1.0 * 3500) / 7)
           else if ?a < - 0.1
           then (losing_message ?a, ?m, ?m + (0.5 * 3500) / 7, ?m - (1.0 * 3500) / 7)
           else if ?a > 0.1
           then (gaining_message ?a, ?m, ?m + (0.5 * 3500) / 7, ?m - (1.0 * 3500) / 7)
           else ([], ?m, ?m + (0.5 * 3500) / 7, ?m - (1.0 * 3500) / 7))
     of (recommendation, maintenance_calories, gain_calories, lose_calories) \<Rightarrow>
       Inr \<lparr>BMR = py_round ((129.6 * (fst (hd wd) * 0.453592) powr 0.55
                                + 0.011 * (real_of_int height * 2.54) ^ 2
                                - (if age \<le> 60 then 1.96 * real_of_int age
                                   else 4.9 * real_of_int (age - 60))
                                - 213.8 * (if lower sex = ''male'' then 0 else 1)) * pal),
            Maintenance = py_round maintenance_calories,
            Gain = py_round gain_calories,
            Lose = py_round lose_calories,
            Recommendation = recommendation,
            Warning = (if ?a < - 1.5 then losing_warning
                       else if ?a > 0.75 then gaining_warning else [])\<rparr>)"
    unfolding calculate_caloric_needs_def Let_def
    by (simp only: len refl not_True_eq_False if_False nil pal tr hdw hdc pw avg mt
          option.case prod.case npfloat.case option.map)
  show ?thesis
    unfolding unfolded by (simp add: py_round_of_int spec_bmr_def)
qed

lemma needs_Inr_valid:
  assumes "calculate_caloric_needs wd cd ud = Inr r"
  shows "\<exists>sex age height lvl pal. ud = Some (sex, age, height, lvl) \<and> pal_dict lvl = Some pal
    \<and> length wd = length cd \<and> wd \<noteq> [] \<and> 0 \<le> fst (hd wd)"
proof -
  have len: "length wd = length cd"
    using assms needs_length_mismatch[of wd cd ud] by (cases "length wd = length cd") simp_all
  have ne: "wd \<noteq> []"
    using assms len needs_no_data[of wd cd ud] by (cases "wd = []") simp_all
  obtain sex age height lvl where ud: "ud = Some (sex, age, height, lvl)"
    using assms len ne needs_no_user[of wd cd] by (cases ud) auto
  obtain pal where pal: "pal_dict lvl = Some pal"
    using assms len ne ud needs_invalid_level[of wd cd lvl sex age height]
    by (cases "pal_dict lvl") auto
  have "0 \<le> fst (hd wd)"
    using assms len ne ud pal needs_negative_weight[of wd cd lvl pal sex age height]
    by (cases "fst (hd wd) < 0") simp_all
  with len ne ud pal show ?thesis by blast
qed

lemma needs_valid_fields:
  assumes "length wd = length cd" and "wd \<noteq> []"
    and "pal_dict lvl = Some pal" and "0 \<le> fst (hd wd)"
  obtains r where "calculate_caloric_needs wd cd (Some (sex, age, height, lvl)) = Inr r"
    and "BMR r = py_round (spec_bmr (fst (hd wd)) (real_of_int height) (real_of_int age)
                             (lower sex \<noteq> ''male'') * pal)"
    and "- 0.1 \<le> spec_avg_weight_change (map fst wd)
           \<and> spec_avg_weight_change (map fst wd) \<le> 0.1 \<Longrightarrow>
         Maintenance r = py_round (fst (hd cd))
         \<and> Gain r = py_round (fst (hd cd)) + 250
         \<and> Lose r = py_round (fst (hd cd)) - 500
         \<and> Recommendation r = maintaining_message"
    and "\<not> (- 0.1 \<le> spec_avg_weight_change (map fst wd)
           \<and> spec_avg_weight_change (map fst wd) \<le> 0.1) \<Longrightarrow>
         Maintenance r = py_round (spec_maintenance (map fst wd) (map fst cd))
         \<and> Gain r = py_round (spec_maintenance (map fst wd) (map fst cd) + 250)
         \<and> Lose r = py_round (spec_maintenance (map fst wd) (map fst cd) - 500)"
    and "spec_avg_weight_change (map fst wd) < - 0.1 \<Longrightarrow>
         Recommendation r = losing_message (spec_avg_weight_change (map fst wd))"
    and "0.1 < spec_avg_weight_change (map fst wd) \<Longrightarrow>
         Recommendation r = gaining_message (spec_avg_weight_change (map fst wd))"
    and "Warning r =
           (if spec_avg_weight_change (map fst wd) < - 1.5 then losing_warning
            else if spec_avg_weight_change (map fst wd) > 0.75 then gaining_warning
            else [])"
proof -
  have shift: "py_round (real_of_int n + 250) = n + 250" "py_round (real_of_int n - 500) = n - 500"
    for n
    using py_round_of_int[of "n + 250"] py_round_of_int[of "n - 500"] by simp_all
  show thesis
    by (rule that[OF needs_valid[OF assms, of sex age height]]) (auto simp: shift)
qed

lemma messages_nonempty:
  "maintaining_message \<noteq> []" "losing_message a \<noteq> []" "gaining_message a \<noteq> []"
  by (simp_all add: maintaining_message_def losing_message_def gaining_message_def)

section \<open>The trend estimator: claims\<close>

text \<open>
  Claim C4. For every non-empty weight series and every positive half-life \<open>h\<close>, the
  trend estimator returns the sum over the positions \<open>i\<close> of \<open>w\<^sub>i * d\<^sub>i\<close>, where
  \<open>d\<^sub>i = exp(-i/h) / (\<Sum>\<^sub>j exp(-j/h))\<close> and position 0 is the most recent sample; the
  array of decay weights that the code builds holds exactly these \<open>d\<^sub>i\<close>, and they sum
  to 1 whatever the length of the series and the half-life.
\<close>

theorem trend_is_normalised_weighted_sum:
  assumes "w \<noteq> []" and "0 < h"
  shows "calculate_weight_trend w h =
      Num (\<Sum>i<length w. w ! i * (exp (- real i / h) / (\<Sum>j<length w. exp (- real j / h))))
    \<and> decay_weights (length w) h =
        map (\<lambda>i. exp (- real i / h) / (\<Sum>j<length w. exp (- real j / h))) [0..<length w]
    \<and> sum_list (decay_weights (length w) h) = 1
    \<and> (\<Sum>i<length w. exp (- real i / h) / (\<Sum>j<length w. exp (- real j / h))) = 1"
proof -
  have a: "calculate_weight_trend w h =
      Num (\<Sum>i<length w. w ! i * (exp (- real i / h) / (\<Sum>j<length w. exp (- real j / h))))"
    using assms calculate_weight_trend_Num[of w h] by (simp add: spec_trend_def spec_decay_def)
  have b: "decay_weights (length w) h =
      map (\<lambda>i. exp (- real i / h) / (\<Sum>j<length w. exp (- real j / h))) [0..<length w]"
    by (rule nth_equalityI)
      (simp_all add: length_decay_weights nth_decay_weights spec_decay_def)
  have c: "sum_list (decay_weights (length w) h) = 1"
    using assms by (simp add: sum_list_decay_weights)
  then have d: "(\<Sum>i<length w. exp (- real i / h) / (\<Sum>j<length w. exp (- real j / h))) = 1"
    by (simp add: sum_list_sum_nth atLeast0LessThan length_decay_weights nth_decay_weights
        spec_decay_def)
  from a b c d show ?thesis by simp
qed

theorem trend_is_normalised_weighted_sum_witness:
  "calculate_weight_trend [180, 181] 7
     = Num (180 * (1 / (1 + exp (- 1 / 7))) + 181 * (exp (- 1 / 7) / (1 + exp (- 1 / 7))))
   \<and> decay_weights 2 7 = [1 / (1 + exp (- 1 / 7)), exp (- 1 / 7) / (1 + exp (- 1 / 7))]
   \<and> 1 / (1 + exp (- 1 / 7)) + exp (- 1 / 7) / (1 + exp (- 1 / 7)) = (1::real)"
  using trend_is_normalised_weighted_sum[of "[180, 181]" 7]
  by (simp add: lessThan_Suc numeral_2_eq_2 add.commute)



text \<open>
  Claim C5, as the code has it. The estimator does not check the half-life. With a
  negative half-life it returns a number all the same, here the only sample of the
  series, where the claim wants an error.
\<close>

theorem trend_negative_half_life_counterexample:
  "calculate_weight_trend [150] (- 7) = Num 150"
  by (simp add: calculate_weight_trend_def decay_weights_def np_arange_def)

text \<open>
  Claim C5, amended. On a non-empty series the estimator returns the normalised weighted
  sum for every half-life other than 0, positive or negative, and \<^verbatim>\<open>nan\<close> for the
  half-life 0; it raises no error for any half-life.
\<close>

theorem trend_half_life_unchecked:
  assumes "w \<noteq> []"
  shows "calculate_weight_trend w h = (if h = 0 then NaN else Num (spec_trend w h))"
  using assms by (simp add: calculate_weight_trend_Num) (simp add: calculate_weight_trend_def)

theorem trend_half_life_unchecked_witness:
  "calculate_weight_trend [150, 151] 0 = NaN
   \<and> calculate_weight_trend [150, 151] (- 1)
       = Num (150 * (1 / (1 + exp 1)) + 151 * (exp 1 / (1 + exp 1)))"
  using trend_half_life_unchecked[of "[150, 151]" 0]
    trend_half_life_unchecked[of "[150, 151]" "- 1"]
  by (simp add: spec_trend_def spec_decay_def lessThan_Suc add.commute)

section \<open>The caloric-needs calculator: claims\<close>




text \<open>
  Claim C2. For a profile with sex male or female (in any letter case) and a level of the
  table, histories of equal non-zero length and a most recent weight that is not negative,
  the calculator returns a result whose BMR field is the BMR formula of the specification,
  taken at the first weight, times the activity factor of the level, rounded: an integer
  at most one half away.
\<close>

theorem bmr_formula:
  assumes "length wd = length cd" and "wd \<noteq> []" and "0 \<le> fst (hd wd)"
    and "(lvl, pal) \<in> set spec_activity_factors"
    and "lower sex = ''male'' \<or> lower sex = ''female''"
  shows "\<exists>r. calculate_caloric_needs wd cd (Some (sex, age, height, lvl)) = Inr r
    \<and> BMR r = py_round (spec_bmr (fst (hd wd)) (real_of_int height) (real_of_int age)
                           (lower sex = ''female'') * pal)
    \<and> \<bar>real_of_int (BMR r)
         - spec_bmr (fst (hd wd)) (real_of_int height) (real_of_int age)
             (lower sex = ''female'') * pal\<bar> \<le> 1 / 2"
proof -
  let ?x = "spec_bmr (fst (hd wd)) (real_of_int height) (real_of_int age)
              (lower sex = ''female'') * pal"
  have pal: "pal_dict lvl = Some pal" using assms(4) by (simp only: pal_dict_table)
  have sex: "(lower sex \<noteq> ''male'') = (lower sex = ''female'')" using assms(5) by auto
  from needs_valid_fields[OF assms(1) assms(2) pal assms(3), of sex age height]
  obtain r where r: "calculate_caloric_needs wd cd (Some (sex, age, height, lvl)) = Inr r"
    and "BMR r = py_round (spec_bmr (fst (hd wd)) (real_of_int height) (real_of_int age)
                             (lower sex \<noteq> ''male'') * pal)"
    by blast
  then have bmr: "BMR r = py_round ?x" by (simp only: sex)
  have "\<bar>real_of_int (BMR r) - ?x\<bar> \<le> 1 / 2" unfolding bmr by (rule py_round_near)
  with r bmr show ?thesis by blast
qed

theorem bmr_formula_witness:
  "\<exists>r. calculate_caloric_needs [(180, ''02''), (181, ''01'')] [(2500, ''02''), (2400, ''01'')]
         (Some (''Female'', 61, 70, ''moderately active'')) = Inr r
    \<and> BMR r = py_round (spec_bmr 180 70 61 True * 1.55)
    \<and> \<bar>real_of_int (BMR r) - spec_bmr 180 70 61 True * 1.55\<bar> \<le> 1 / 2"
  using bmr_formula[where wd = "[(180, ''02''), (181, ''01'')]"
      and cd = "[(2500, ''02''), (2400, ''01'')]" and lvl = "''moderately active''"
      and pal = "1.55" and sex = "''Female''" and age = 61 and height = 70]
  by (simp add: spec_activity_factors_def lower_def lower_char_def)

text \<open>
  Claim C3. For a valid input whose weekly rate of change is outside the band from -0.1
  to 0.1, the trend is the estimator's output at half-life 7, and the result holds the
  maintenance calories \<open>average(calories) - rate * 3500\<close>, that value plus 250 and that
  value minus 500, each rounded.
\<close>

theorem default_branch_targets:
  assumes "length wd = length cd" and "wd \<noteq> []" and "0 \<le> fst (hd wd)"
    and "(lvl, pal) \<in> set spec_activity_factors"
    and "\<not> (- 0.1 \<le> spec_avg_weight_change (map fst wd)
            \<and> spec_avg_weight_change (map fst wd) \<le> 0.1)"
  shows "calculate_weight_trend (map fst wd) 7 = Num (spec_trend (map fst wd) 7)
    \<and> (\<exists>r. calculate_caloric_needs wd cd (Some (sex, age, height, lvl)) = Inr r
        \<and> Maintenance r = py_round (spec_maintenance (map fst wd) (map fst cd))
        \<and> Gain r = py_round (spec_maintenance (map fst wd) (map fst cd) + 250)
        \<and> Lose r = py_round (spec_maintenance (map fst wd) (map fst cd) - 500))"
proof -
  have pal: "pal_dict lvl = Some pal" using assms(4) by (simp only: pal_dict_table)
  have "calculate_weight_trend (map fst wd) 7 = Num (spec_trend (map fst wd) 7)"
    using assms(2) by (simp add: calculate_weight_trend_Num)
  moreover from needs_valid_fields[OF assms(1) assms(2) pal assms(3), of sex age height]
  obtain r where "calculate_caloric_needs wd cd (Some (sex, age, height, lvl)) = Inr r"
    and "\<not> (- 0.1 \<le> spec_avg_weight_change (map fst wd)
           \<and> spec_avg_weight_change (map fst wd) \<le> 0.1) \<Longrightarrow>
         Maintenance r = py_round (spec_maintenance (map fst wd) (map fst cd))
         \<and> Gain r = py_round (spec_maintenance (map fst wd) (map fst cd) + 250)
         \<and> Lose r = py_round (spec_maintenance (map fst wd) (map fst cd) - 500)"
    by blast
  ultimately show ?thesis using assms(5) by blast
qed

theorem default_branch_targets_witness:
  "\<exists>r. calculate_caloric_needs [(200, ''02''), (100, ''01'')] [(2000, ''02''), (1800, ''01'')]
         (Some (''Female'', 61, 65, ''very active'')) = Inr r
    \<and> Maintenance r = py_round (1900 - spec_avg_weight_change [200, 100] * 3500)
    \<and> Gain r = py_round (1900 - spec_avg_weight_change [200, 100] * 3500 + 250)
    \<and> Lose r = py_round (1900 - spec_avg_weight_change [200, 100] * 3500 - 500)"
  using default_branch_targets[where wd = "[(200, ''02''), (100, ''01'')]"
      and cd = "[(2000, ''02''), (1800, ''01'')]" and lvl = "''very active''"
      and pal = "1.725" and sex = "''Female''" and age = 61 and height = 65]
    spec_avg_weight_change_loss
  by (simp add: spec_activity_factors_def spec_maintenance_def)

text \<open>
  Claim C6. For a valid input whose weekly rate of change is within the band from -0.1 to
  0.1, the maintenance calories are the rounded intake of the most recent day, the gain and
  lose targets are that integer plus 250 and minus 500, and the recommendation is the
  fixed maintaining message; for one day of data, weight 150 and 2000 calories, the
  result holds 2000, 2250 and 1500.
\<close>

theorem maintaining_override:
  assumes "length wd = length cd" and "wd \<noteq> []" and "0 \<le> fst (hd wd)"
    and "(lvl, pal) \<in> set spec_activity_factors"
    and "- 0.1 \<le> spec_avg_weight_change (map fst wd)"
    and "spec_avg_weight_change (map fst wd) \<le> 0.1"
  shows "(\<exists>r. calculate_caloric_needs wd cd (Some (sex, age, height, lvl)) = Inr r
        \<and> Maintenance r = py_round (fst (hd cd))
        \<and> Gain r = py_round (fst (hd cd)) + 250
        \<and> Lose r = py_round (fst (hd cd)) - 500
        \<and> Recommendation r = maintaining_message)
    \<and> (\<exists>r. calculate_caloric_needs [(150, d)] [(2000, d')] (Some (sex, age, height, lvl)) = Inr r
        \<and> Maintenance r = 2000 \<and> Gain r = 2250 \<and> Lose r = 1500
        \<and> Recommendation r = maintaining_message)"
proof -
  have pal: "pal_dict lvl = Some pal" using assms(4) by (simp only: pal_dict_table)
  from needs_valid_fields[OF assms(1) assms(2) pal assms(3), of sex age height]
  obtain r where "calculate_caloric_needs wd cd (Some (sex, age, height, lvl)) = Inr r"
    and "- 0.1 \<le> spec_avg_weight_change (map fst wd)
           \<and> spec_avg_weight_change (map fst wd) \<le> 0.1 \<Longrightarrow>
         Maintenance r = py_round (fst (hd cd))
         \<and> Gain r = py_round (fst (hd cd)) + 250
         \<and> Lose r = py_round (fst (hd cd)) - 500
         \<and> Recommendation r = maintaining_message"
    by blast
  then have general: "\<exists>r. calculate_caloric_needs wd cd (Some (sex, age, height, lvl)) = Inr r
        \<and> Maintenance r = py_round (fst (hd cd))
        \<and> Gain r = py_round (fst (hd cd)) + 250
        \<and> Lose r = py_round (fst (hd cd)) - 500
        \<and> Recommendation r = maintaining_message"
    using assms(5) assms(6) by blast
  have "length [(150 :: real, d)] = length [(2000 :: real, d')]" "[(150 :: real, d)] \<noteq> []"
    "0 \<le> fst (hd [(150 :: real, d)])"
    by simp_all
  from needs_valid_fields[OF this(1) this(2) pal this(3), of sex age height]
  obtain r' where
    "calculate_caloric_needs [(150, d)] [(2000, d')] (Some (sex, age, height, lvl)) = Inr r'"
    and "- 0.1 \<le> spec_avg_weight_change (map fst [(150 :: real, d)])
           \<and> spec_avg_weight_change (map fst [(150 :: real, d)]) \<le> 0.1 \<Longrightarrow>
         Maintenance r' = py_round (fst (hd [(2000 :: real, d')]))
         \<and> Gain r' = py_round (fst (hd [(2000 :: real, d')])) + 250
         \<and> Lose r' = py_round (fst (hd [(2000 :: real, d')])) - 500
         \<and> Recommendation r' = maintaining_message"
    by blast
  then have single: "\<exists>r. calculate_caloric_needs [(150, d)] [(2000, d')]
          (Some (sex, age, height, lvl)) = Inr r
        \<and> Maintenance r = 2000 \<and> Gain r = 2250 \<and> Lose r = 1500
        \<and> Recommendation r = maintaining_message"
    using py_round_of_int[of 2000] by (simp add: spec_avg_weight_change_single)
  from general single show ?thesis by simp
qed

theorem maintaining_override_witness:
  "(\<exists>r. calculate_caloric_needs [(150, ''03'')] [(2000.5, ''03'')]
          (Some (''Female'', 40, 64, ''lightly active'')) = Inr r
      \<and> Maintenance r = 2000 \<and> Gain r = 2250 \<and> Lose r = 1500
      \<and> Recommendation r = maintaining_message)
   \<and> (\<exists>r. calculate_caloric_needs [(150, ''03'')] [(2000, ''03'')]
          (Some (''Female'', 40, 64, ''lightly active'')) = Inr r
      \<and> Maintenance r = 2000 \<and> Gain r = 2250 \<and> Lose r = 1500
      \<and> Recommendation r = maintaining_message)"
  using maintaining_override[where wd = "[(150, ''03'')]" and cd = "[(2000.5, ''03'')]"
      and lvl = "''lightly active''" and pal = "1.375" and sex = "''Female''" and age = 40
      and height = 64 and d = "''03''" and d' = "''03''"]
  by (simp add: spec_activity_factors_def spec_avg_weight_change_single py_round_def)

text \<open>
  Claim C7. For a valid input the warning is non-empty exactly when the weekly rate of
  change is below -1.5 or above 0.75: the losing warning in the first case, the gaining
  warning in the second. It does not replace the recommendation, which is present beside
  it.
\<close>

theorem rapid_change_warning_iff:
  assumes "length wd = length cd" and "wd \<noteq> []" and "0 \<le> fst (hd wd)"
    and "(lvl, pal) \<in> set spec_activity_factors"
  shows "\<exists>r. calculate_caloric_needs wd cd (Some (sex, age, height, lvl)) = Inr r
    \<and> (Warning r \<noteq> [] \<longleftrightarrow> spec_avg_weight_change (map fst wd) < - 1.5
                              \<or> spec_avg_weight_change (map fst wd) > 0.75)
    \<and> (spec_avg_weight_change (map fst wd) < - 1.5 \<longrightarrow>
          Warning r = losing_warning
          \<and> Recommendation r = losing_message (spec_avg_weight_change (map fst wd)))
    \<and> (spec_avg_weight_change (map fst wd) > 0.75 \<longrightarrow>
          Warning r = gaining_warning
          \<and> Recommendation r = gaining_message (spec_avg_weight_change (map fst wd)))"
proof -
  have pal: "pal_dict lvl = Some pal" using assms(4) by (simp only: pal_dict_table)
  from needs_valid_fields[OF assms(1) assms(2) pal assms(3), of sex age height]
  obtain r where r: "calculate_caloric_needs wd cd (Some (sex, age, height, lvl)) = Inr r"
    and lose: "spec_avg_weight_change (map fst wd) < - 0.1 \<Longrightarrow>
         Recommendation r = losing_message (spec_avg_weight_change (map fst wd))"
    and gain: "0.1 < spec_avg_weight_change (map fst wd) \<Longrightarrow>
         Recommendation r = gaining_message (spec_avg_weight_change (map fst wd))"
    and warn: "Warning r =
           (if spec_avg_weight_change (map fst wd) < - 1.5 then losing_warning
            else if spec_avg_weight_change (map fst wd) > 0.75 then gaining_warning
            else [])"
    by blast
  have "Warning r \<noteq> [] \<longleftrightarrow> spec_avg_weight_change (map fst wd) < - 1.5
                              \<or> spec_avg_weight_change (map fst wd) > 0.75"
    unfolding warn by (simp add: losing_warning_def gaining_warning_def)
  moreover have "spec_avg_weight_change (map fst wd) < - 1.5 \<longrightarrow>
          Warning r = losing_warning
          \<and> Recommendation r = losing_message (spec_avg_weight_change (map fst wd))"
    using lose warn by simp
  moreover have "spec_avg_weight_change (map fst wd) > 0.75 \<longrightarrow>
          Warning r = gaining_warning
          \<and> Recommendation r = gaining_message (spec_avg_weight_change (map fst wd))"
    using gain warn by simp
  ultimately show ?thesis using r by blast
qed

theorem rapid_change_warning_iff_witness:
  "\<exists>r. calculate_caloric_needs [(100, ''02''), (200, ''01'')] [(2000, ''02''), (1800, ''01'')]
         (Some (''Male'', 30, 70, ''sedentary'')) = Inr r
    \<and> Warning r = gaining_warning \<and> Warning r \<noteq> []
    \<and> Recommendation r = gaining_message (spec_avg_weight_change [100, 200])"
  using rapid_change_warning_iff[where wd = "[(100, ''02''), (200, ''01'')]"
      and cd = "[(2000, ''02''), (1800, ''01'')]" and lvl = "''sedentary''"
      and pal = "1.2" and sex = "''Male''" and age = 30 and height = 70]
    spec_avg_weight_change_gain
  by (auto simp add: spec_activity_factors_def)



text \<open>
  Claim C10. In every result that the calculator returns, the recommendation is not
  empty: it is the maintaining, the losing or the gaining message, since the three
  comparisons of the rate with the band cover the reals and the last branch is never
  taken.
\<close>

theorem recommendation_nonempty:
  assumes "calculate_caloric_needs wd cd ud = Inr r"
  shows "Recommendation r \<noteq> []
    \<and> Recommendation r \<in> {maintaining_message,
          losing_message (spec_avg_weight_change (map fst wd)),
          gaining_message (spec_avg_weight_change (map fst wd))}"
proof -
  from needs_Inr_valid[OF assms] obtain sex age height lvl pal
    where ud: "ud = Some (sex, age, height, lvl)" and pal: "pal_dict lvl = Some pal"
      and len: "length wd = length cd" and ne: "wd \<noteq> []" and w0: "0 \<le> fst (hd wd)"
    by blast
  let ?a = "spec_avg_weight_change (map fst wd)"
  from needs_valid_fields[OF len ne pal w0, of sex age height]
  obtain r' where r': "calculate_caloric_needs wd cd (Some (sex, age, height, lvl)) = Inr r'"
    and override: "- 0.1 \<le> ?a \<and> ?a \<le> 0.1 \<Longrightarrow>
         Maintenance r' = py_round (fst (hd cd))
         \<and> Gain r' = py_round (fst (hd cd)) + 250
         \<and> Lose r' = py_round (fst (hd cd)) - 500
         \<and> Recommendation r' = maintaining_message"
    and lose: "?a < - 0.1 \<Longrightarrow> Recommendation r' = losing_message ?a"
    and gain: "0.1 < ?a \<Longrightarrow> Recommendation r' = gaining_message ?a"
    by blast
  from assms r' have eq: "r' = r" by (simp add: ud)
  consider "- 0.1 \<le> ?a \<and> ?a \<le> 0.1" | "?a < - 0.1" | "0.1 < ?a" by linarith
  then have "Recommendation r \<in> {maintaining_message, losing_message ?a, gaining_message ?a}"
  proof cases
    case 1
    with override show ?thesis by (simp add: eq)
  next
    case 2
    with lose show ?thesis by (simp add: eq)
  next
    case 3
    with gain show ?thesis by (simp add: eq)
  qed
  then show ?thesis using messages_nonempty by auto
qed

theorem recommendation_nonempty_witness:
  "\<exists>r. calculate_caloric_needs
         [(180, ''07''), (181, ''06''), (182, ''05''), (183, ''04''), (184, ''03''),
          (185, ''02''), (186, ''01'')]
         [(2500, ''07''), (2500, ''06''), (2500, ''05''), (2500, ''04''), (2500, ''03''),
          (2500, ''02''), (2500, ''01'')]
         (Some (''Male'', 30, 70, ''sedentary'')) = Inr r
    \<and> Recommendation r
        = gaining_message (spec_avg_weight_change [180, 181, 182, 183, 184, 185, 186])
    \<and> Recommendation r \<noteq> []"
proof -
  let ?wd = "[(180 :: real, ''07''), (181, ''06''), (182, ''05''), (183, ''04''),
      (184, ''03''), (185, ''02''), (186, ''01'')]"
  let ?cd = "[(2500 :: real, ''07''), (2500, ''06''), (2500, ''05''), (2500, ''04''),
      (2500, ''03''), (2500, ''02''), (2500, ''01'')]"
  have "length ?wd = length ?cd" and "?wd \<noteq> []" and "pal_dict ''sedentary'' = Some 1.2"
    and "0 \<le> fst (hd ?wd)"
    by (simp_all add: pal_dict_def)
  from needs_valid_fields[OF this, of "''Male''" 30 70]
  obtain r where r: "calculate_caloric_needs
         [(180, ''07''), (181, ''06''), (182, ''05''), (183, ''04''), (184, ''03''),
          (185, ''02''), (186, ''01'')]
         [(2500, ''07''), (2500, ''06''), (2500, ''05''), (2500, ''04''), (2500, ''03''),
          (2500, ''02''), (2500, ''01'')]
         (Some (''Male'', 30, 70, ''sedentary'')) = Inr r"
    and "Recommendation r
        = gaining_message (spec_avg_weight_change [180, 181, 182, 183, 184, 185, 186])"
    using spec_avg_weight_change_week by auto
  with recommendation_nonempty[OF r] show ?thesis by blast
qed

end
